theory Spec2Isabelle
  imports Main "HOL-Library.Sublist"
begin

section \<open>The symbol-export checker \<^verbatim>\<open>bin/symbols-check.py\<close>\<close>

text \<open>
  The script lists the dynamic symbols a shared library exports (through \<^verbatim>\<open>nm\<close>),
  reads a policy file of mandatory and optional symbol names, and prints the exported
  symbols the policy does not know and the mandatory symbols the library does not export.
  The string methods are those of Python 3 on \<^verbatim>\<open>str\<close>, with \<^typ>\<open>string\<close> for strings;
  \<open>main\<close> starts from the parsed command line (the three required options of
  \<^verbatim>\<open>argparse\<close>); the two things the script takes from its environment, the
  output of the \<^verbatim>\<open>nm\<close> subprocess and the lines of the policy file, are the two fields
  of a \<open>world\<close> record, each of which may raise instead of returning.
\<close>

subsection \<open>The string methods of Python the script calls\<close>

text \<open>
  The characters \<^verbatim>\<open>str.isspace\<close> accepts, among the code points below 256:
  tab, line feed, vertical tab, form feed, carriage return, the four separators
  \<^verbatim>\<open>\x1c\<close> to \<^verbatim>\<open>\x1f\<close>, space, \<^verbatim>\<open>\x85\<close> and \<^verbatim>\<open>\xa0\<close>.
\<close>

definition whitespace :: "char list" where
  "whitespace = [CHR 0x09, CHR 0x0A, CHR 0x0B, CHR 0x0C, CHR 0x0D,
                 CHR 0x1C, CHR 0x1D, CHR 0x1E, CHR 0x1F, CHR 0x20, CHR 0x85, CHR 0xA0]"

definition isspace :: "char \<Rightarrow> bool" where
  "isspace c \<longleftrightarrow> c \<in> set whitespace"

text \<open>\<^verbatim>\<open>s.strip()\<close>: the string without its leading and trailing whitespace.\<close>

definition strip :: "string \<Rightarrow> string" where
  "strip s = rev (dropWhile isspace (rev (dropWhile isspace s)))"

text \<open>
  \<^verbatim>\<open>s.split()\<close>: the maximal runs of characters that are not whitespace, in order;
  \<open>cur\<close> is the run being read.
\<close>

fun split_aux :: "string \<Rightarrow> string \<Rightarrow> string list" where
  "split_aux cur [] = (if cur = [] then [] else [cur])"
| "split_aux cur (c # cs) =
     (if isspace c then (if cur = [] then split_aux [] cs else cur # split_aux [] cs)
      else split_aux (cur @ [c]) cs)"

definition split_ws :: "string \<Rightarrow> string list" where
  "split_ws s = split_aux [] s"

text \<open>\<^verbatim>\<open>s.split('#')[0]\<close>: everything before the first \<^verbatim>\<open>#\<close>.\<close>

definition split_hash_0 :: "string \<Rightarrow> string" where
  "split_hash_0 s = takeWhile (\<lambda>c. c \<noteq> CHR ''#'') s"

text \<open>
  \<^verbatim>\<open>s.splitlines()\<close>: the lines of \<open>s\<close> without their line breaks. A line break is one
  of the characters below, or a carriage return followed by a line feed (\<open>skip_lf\<close> says
  that the character before was a carriage return); a last line that is empty is dropped.
\<close>

definition linebreaks :: "char list" where
  "linebreaks = [CHR 0x0A, CHR 0x0B, CHR 0x0C, CHR 0x0D, CHR 0x1C, CHR 0x1D, CHR 0x1E, CHR 0x85]"

fun splitlines_aux :: "bool \<Rightarrow> string \<Rightarrow> string \<Rightarrow> string list" where
  "splitlines_aux skip_lf cur [] = (if cur = [] then [] else [cur])"
| "splitlines_aux skip_lf cur (c # cs) =
     (if skip_lf \<and> c = CHR 0x0A then splitlines_aux False cur cs
      else if c \<in> set linebreaks then cur # splitlines_aux (c = CHR 0x0D) [] cs
      else splitlines_aux False (cur @ [c]) cs)"

definition splitlines :: "string \<Rightarrow> string list" where
  "splitlines s = splitlines_aux False [] s"

subsection \<open>Exceptions, the environment and the way the process ends\<close>

text \<open>
  The exceptions that reach the top level: \<open>OSError\<close> (the tool or the policy file
  cannot be opened), \<open>CalledProcessError\<close> (the tool exits with a status other than 0),
  \<open>UnicodeDecodeError\<close> (the tool's output is not ASCII) and \<open>ValueError\<close> (the tuple
  assignment in \<open>get_symbols\<close> gets a number of fields other than three).
\<close>

datatype exn = OSError | CalledProcessError | UnicodeDecodeError | ValueError

record world =
  check_output :: "string list \<Rightarrow> exn + string"
  readlines :: "string \<Rightarrow> exn + string list"

record args =
  symbols_file :: string
  lib :: string
  nm :: string

text \<open>
  A run ends with an exception nobody catches or with a call of \<^verbatim>\<open>exit\<close>; its outcome is
  the list of the lines it printed on standard output, and how it ended.
\<close>

datatype ending = Uncaught exn | SysExit int

fun exit_code :: "ending \<Rightarrow> int" where
  "exit_code (Uncaught e) = 1"
| "exit_code (SysExit n) = n"

subsection \<open>\<open>PLATFORM_SYMBOLS\<close> and \<open>get_symbols\<close>\<close>

definition PLATFORM_SYMBOLS :: "string list" where
  "PLATFORM_SYMBOLS =
    [''__bss_end__'',
     ''__bss_start__'',
     ''__bss_start'',
     ''__end__'',
     ''_bss_end__'',
     ''_edata'',
     ''_end'',
     ''_fini'',
     ''_init'']"

text \<open>\<^verbatim>\<open>bytes.decode("ascii")\<close> raises on a byte of 128 or above.\<close>

definition decode_ascii :: "string \<Rightarrow> exn + string" where
  "decode_ascii bs = (if \<forall>b \<in> set bs. of_char b < (128 :: nat) then Inr bs else Inl UnicodeDecodeError)"

text \<open>
  The loop of \<open>get_symbols\<close>: the tuple assignment \<^verbatim>\<open>(_, _, symbol_name) = line.split()\<close>
  raises \<open>ValueError\<close> unless the line has exactly three fields.
\<close>

fun get_symbols_loop :: "string list \<Rightarrow> string list \<Rightarrow> exn + string list" where
  "get_symbols_loop [] symbols = Inr symbols"
| "get_symbols_loop (line # rest) symbols =
     (case split_ws line of
        [_, _, symbol_name] \<Rightarrow> get_symbols_loop rest (symbols @ [symbol_name])
      | _ \<Rightarrow> Inl ValueError)"

definition get_symbols :: "world \<Rightarrow> string \<Rightarrow> string \<Rightarrow> exn + string list" where
  "get_symbols w nm_path lib_path =
     (case check_output w [nm_path, ''--format=bsd'', ''-D'', ''--defined-only'', lib_path] of
        Inl e \<Rightarrow> Inl e
      | Inr bs \<Rightarrow>
          (case decode_ascii bs of
             Inl e \<Rightarrow> Inl e
           | Inr output \<Rightarrow> get_symbols_loop (splitlines output) []))"

subsection \<open>\<open>main\<close>\<close>

text \<open>The list variables of \<open>main\<close>.\<close>

record vars =
  lib_symbols :: "string list"
  mandatory_symbols :: "string list"
  optional_symbols :: "string list"
  unknown_symbols :: "string list"
  missing_symbols :: "string list"

definition qualifier_optional :: string where
  "qualifier_optional = ''(optional)''"

text \<open>The truth value of \<^verbatim>\<open>qualifier\<close>, which is \<^verbatim>\<open>None\<close> or a string.\<close>

fun truthy :: "string option \<Rightarrow> bool" where
  "truthy None = False"
| "truthy (Some s) = (s \<noteq> [])"

text \<open>
  The body of the loop over the lines of the policy file (lines 57 to 87). \<open>Inl\<close> is the
  message printed and the status passed to \<^verbatim>\<open>exit\<close>; \<open>Inr\<close> is the variables after the
  line.
\<close>

fun policy_fields :: "string list \<Rightarrow> (string option \<times> string) option" where
  "policy_fields [f0] = Some (None, f0)"
| "policy_fields [f0, f1] = Some (Some f0, f1)"
| "policy_fields _ = None"

definition policy_line :: "string \<Rightarrow> string \<Rightarrow> vars \<Rightarrow> (string \<times> int) + vars" where
  "policy_line path line0 v =
     (let line = strip (split_hash_0 line0) in
      if line = [] then Inr v
      else
        (case policy_fields (split_ws line) of
           None \<Rightarrow> Inl (path @ '': invalid format: '' @ line, 1)
         | Some (qualifier, symbol) \<Rightarrow>
             if truthy qualifier \<and> \<not> qualifier = Some qualifier_optional
             then Inl (path @ '': invalid qualifier: '' @ the qualifier, 1)
             else if qualifier = Some qualifier_optional
             then Inr (v\<lparr>optional_symbols := optional_symbols v @ [symbol]\<rparr>)
             else Inr (v\<lparr>mandatory_symbols := mandatory_symbols v @ [symbol]\<rparr>)))"

fun policy_loop :: "string \<Rightarrow> string list \<Rightarrow> vars \<Rightarrow> (string \<times> int) + vars" where
  "policy_loop path [] v = Inr v"
| "policy_loop path (line # rest) v =
     (case policy_line path line v of
        Inl e \<Rightarrow> Inl e
      | Inr v' \<Rightarrow> policy_loop path rest v')"

text \<open>The loop of lines 90 to 97 over the exported symbols.\<close>

fun unknown_loop :: "string list \<Rightarrow> vars \<Rightarrow> vars" where
  "unknown_loop [] v = v"
| "unknown_loop (symbol # rest) v =
     (if symbol \<in> set (mandatory_symbols v) then unknown_loop rest v
      else if symbol \<in> set (optional_symbols v) then unknown_loop rest v
      else if symbol \<in> set PLATFORM_SYMBOLS then unknown_loop rest v
      else unknown_loop rest (v\<lparr>unknown_symbols := unknown_symbols v @ [symbol]\<rparr>))"

text \<open>Lines 89 to 101: the two lists of the report.\<close>

definition audit :: "vars \<Rightarrow> vars" where
  "audit v =
     (let v1 = unknown_loop (lib_symbols v) (v\<lparr>unknown_symbols := []\<rparr>) in
      v1\<lparr>missing_symbols := filter (\<lambda>sym. sym \<notin> set (lib_symbols v1)) (mandatory_symbols v1)\<rparr>)"

text \<open>Lines 103 to 111: the lines printed and the exit status.\<close>

definition report :: "string \<Rightarrow> vars \<Rightarrow> string list \<times> ending" where
  "report lib_path v =
     (map (\<lambda>symbol. lib_path @ '': unknown symbol exported: '' @ symbol) (unknown_symbols v)
      @ map (\<lambda>symbol. lib_path @ '': missing symbol: '' @ symbol) (missing_symbols v),
      if unknown_symbols v \<noteq> [] \<or> missing_symbols v \<noteq> [] then SysExit 1 else SysExit 0)"

definition init_vars :: "string list \<Rightarrow> vars" where
  "init_vars syms =
     \<lparr>lib_symbols = syms, mandatory_symbols = [], optional_symbols = [],
      unknown_symbols = [], missing_symbols = []\<rparr>"

definition main :: "world \<Rightarrow> args \<Rightarrow> string list \<times> ending" where
  "main w a =
     (case get_symbols w (nm a) (lib a) of
        Inl e \<Rightarrow> ([], Uncaught e)
      | Inr syms \<Rightarrow>
          (case readlines w (symbols_file a) of
             Inl e \<Rightarrow> ([], Uncaught e)
           | Inr lines \<Rightarrow>
               (case policy_loop (symbols_file a) lines (init_vars syms) of
                  Inl (msg, code) \<Rightarrow> ([msg], SysExit code)
                | Inr v \<Rightarrow> report (lib a) (audit v))))"

subsection \<open>What a policy line declares\<close>

text \<open>
  What \<open>policy_line\<close> appends to empty lists of mandatory and optional symbols, or
  \<open>None\<close> when it rejects the line; the path only occurs in the message of a rejected
  line.
\<close>

definition line_entry :: "string \<Rightarrow> (string list \<times> string list) option" where
  "line_entry line0 =
     (case policy_line [] line0 (init_vars []) of
        Inl e \<Rightarrow> None
      | Inr v \<Rightarrow> Some (mandatory_symbols v, optional_symbols v))"

text \<open>The mandatory and the optional symbols a line declares.\<close>

definition line_mandatory :: "string \<Rightarrow> string list" where
  "line_mandatory line0 = (case line_entry line0 of None \<Rightarrow> [] | Some (m, opt) \<Rightarrow> m)"

definition line_optional :: "string \<Rightarrow> string list" where
  "line_optional line0 = (case line_entry line0 of None \<Rightarrow> [] | Some (m, opt) \<Rightarrow> opt)"

text \<open>Two states of the variables with the same exported symbols and the same sets of names.\<close>

definition same_policy :: "vars \<Rightarrow> vars \<Rightarrow> bool" where
  "same_policy v v' \<longleftrightarrow>
     lib_symbols v' = lib_symbols v
     \<and> set (mandatory_symbols v') = set (mandatory_symbols v)
     \<and> set (optional_symbols v') = set (optional_symbols v)"

subsection \<open>Sample inputs\<close>

text \<open>
  A library path, a policy path and a tool name; a world in which the tool prints \<open>out\<close>
  and the policy file has the lines \<open>ls\<close>; and the variables of \<open>main\<close> once a policy
  with one mandatory and one optional symbol is read.
\<close>

abbreviation sample_args :: args where
  "sample_args \<equiv> \<lparr>symbols_file = ''policy.txt'', lib = ''libfoo.so'', nm = ''nm''\<rparr>"

abbreviation sample_world :: "string \<Rightarrow> string list \<Rightarrow> world" where
  "sample_world out ls \<equiv> \<lparr>check_output = (\<lambda>argv. Inr out), readlines = (\<lambda>path. Inr ls)\<rparr>"

abbreviation sample_vars :: "string list \<Rightarrow> vars" where
  "sample_vars syms \<equiv>
     \<lparr>lib_symbols = syms, mandatory_symbols = [''foo_init''], optional_symbols = [''foo_debug''],
      unknown_symbols = [], missing_symbols = []\<rparr>"

lemmas model_defs =
  main_def get_symbols_def decode_ascii_def splitlines_def linebreaks_def split_ws_def
  isspace_def whitespace_def policy_line_def strip_def split_hash_0_def init_vars_def
  qualifier_optional_def audit_def report_def PLATFORM_SYMBOLS_def Let_def

section \<open>Properties\<close>

subsection \<open>The string methods\<close>

lemma split_aux_token_nonempty: "t \<in> set (split_aux cur s) \<Longrightarrow> t \<noteq> []"
  by (induction s arbitrary: cur) (auto split: if_splits)

lemma split_aux_Nil_iff: "split_aux cur s = [] \<longleftrightarrow> cur = [] \<and> (\<forall>c \<in> set s. isspace c)"
  by (induction s arbitrary: cur) auto

lemma strip_has_nonspace:
  assumes "strip s \<noteq> []"
  shows "\<exists>c \<in> set (strip s). \<not> isspace c"
proof -
  let ?u = "dropWhile isspace (rev (dropWhile isspace s))"
  from assms have ne: "?u \<noteq> []" by (simp add: strip_def)
  then have "\<not> isspace (hd ?u)" by (rule hd_dropWhile)
  moreover from ne have "hd ?u \<in> set ?u" by simp
  moreover have "set (strip s) = set ?u" by (simp add: strip_def)
  ultimately show ?thesis by blast
qed

lemma split_ws_strip_nonempty: "strip s \<noteq> [] \<Longrightarrow> split_ws (strip s) \<noteq> []"
  using strip_has_nonspace [of s] by (auto simp: split_ws_def split_aux_Nil_iff)

lemma split_ws_token_nonempty: "t \<in> set (split_ws s) \<Longrightarrow> t \<noteq> []"
  unfolding split_ws_def by (rule split_aux_token_nonempty)

subsection \<open>The loops\<close>

lemma unknown_loop_eq:
  "unknown_loop xs v =
     v\<lparr>unknown_symbols := unknown_symbols v @
        filter (\<lambda>s. s \<notin> set (mandatory_symbols v) \<and> s \<notin> set (optional_symbols v)
                     \<and> s \<notin> set PLATFORM_SYMBOLS) xs\<rparr>"
  by (induction xs arbitrary: v) auto

lemma audit_eq:
  "audit v = v\<lparr>unknown_symbols :=
                  filter (\<lambda>s. s \<notin> set (mandatory_symbols v) \<and> s \<notin> set (optional_symbols v)
                               \<and> s \<notin> set PLATFORM_SYMBOLS) (lib_symbols v),
               missing_symbols := filter (\<lambda>sym. sym \<notin> set (lib_symbols v)) (mandatory_symbols v)\<rparr>"
  by (simp add: audit_def unknown_loop_eq)

lemma get_symbols_loop_eq:
  "get_symbols_loop ls acc =
     (if \<forall>l \<in> set ls. length (split_ws l) = 3 then Inr (acc @ map (\<lambda>l. split_ws l ! 2) ls)
      else Inl ValueError)"
proof (induction ls arbitrary: acc)
  case Nil
  show ?case by simp
next
  case (Cons l ls)
  show ?case
  proof (cases "length (split_ws l) = 3")
    case True
    then obtain x y z where "split_ws l = [x, y, z]"
      by (auto simp: length_Suc_conv numeral_3_eq_3)
    then show ?thesis using Cons.IH by simp
  next
    case False
    then have "get_symbols_loop (l # ls) acc = Inl ValueError"
      by (auto split: list.splits)
    with False show ?thesis by simp
  qed
qed

lemma policy_loop_append:
  "policy_loop path (xs @ ys) v =
     (case policy_loop path xs v of Inl e \<Rightarrow> Inl e | Inr v' \<Rightarrow> policy_loop path ys v')"
  by (induction xs arbitrary: v) (auto split: sum.splits)

lemma policy_fields_cases:
  "policy_fields fs =
     (if length fs = 1 then Some (None, fs ! 0)
      else if length fs = 2 then Some (Some (fs ! 0), fs ! 1) else None)"
  by (induction fs rule: policy_fields.induct) simp_all

text \<open>
  The body of the policy loop by the number of fields. A field is never empty, so the
  test of the truth value of \<^verbatim>\<open>qualifier\<close> never lets a two-field line through.
\<close>

lemma policy_line_eq:
  "policy_line path line0 v =
     (let line = strip (split_hash_0 line0); fields = split_ws line in
      if line = [] then Inr v
      else if length fields = 1
        then Inr (v\<lparr>mandatory_symbols := mandatory_symbols v @ [fields ! 0]\<rparr>)
      else if length fields = 2
        then (if fields ! 0 = ''(optional)''
              then Inr (v\<lparr>optional_symbols := optional_symbols v @ [fields ! 1]\<rparr>)
              else Inl (path @ '': invalid qualifier: '' @ fields ! 0, 1))
      else Inl (path @ '': invalid format: '' @ line, 1))"
proof -
  let ?fields = "split_ws (strip (split_hash_0 line0))"
  have "length ?fields = 2 \<Longrightarrow> ?fields ! 0 \<noteq> []"
    using split_ws_token_nonempty [of "?fields ! 0" "strip (split_hash_0 line0)"]
    by simp
  then show ?thesis
    by (auto simp: policy_line_def policy_fields_cases qualifier_optional_def Let_def)
qed

lemma policy_line_code: "policy_line path l v = Inl (msg, code) \<Longrightarrow> code = 1"
  by (auto simp: policy_line_eq Let_def split: if_splits)

lemma policy_loop_code: "policy_loop path ls v = Inl (msg, code) \<Longrightarrow> code = 1"
  by (induction ls arbitrary: v) (auto split: sum.splits dest: policy_line_code)

lemma policy_line_entry:
  "policy_line path line0 v =
     (case line_entry line0 of
        None \<Rightarrow> Inl (fst (projl (policy_line path line0 (init_vars []))), 1)
      | Some (m, opt) \<Rightarrow>
          Inr (v\<lparr>mandatory_symbols := mandatory_symbols v @ m,
                optional_symbols := optional_symbols v @ opt\<rparr>))"
  by (simp add: line_entry_def policy_line_eq init_vars_def Let_def)

text \<open>What an accepted policy file leaves in the lists.\<close>

lemma policy_line_accepted:
  assumes "line_entry l \<noteq> None"
  shows "policy_line path l v =
           Inr (v\<lparr>mandatory_symbols := mandatory_symbols v @ line_mandatory l,
                 optional_symbols := optional_symbols v @ line_optional l\<rparr>)"
  using assms
  by (subst policy_line_entry) (auto simp: line_mandatory_def line_optional_def)

lemma policy_loop_accepted:
  assumes "\<forall>l \<in> set ls. line_entry l \<noteq> None"
  shows "policy_loop path ls v =
           Inr (v\<lparr>mandatory_symbols := mandatory_symbols v @ concat (map line_mandatory ls),
                 optional_symbols := optional_symbols v @ concat (map line_optional ls)\<rparr>)"
  using assms by (induction ls arbitrary: v) (simp_all add: policy_line_accepted)

lemma same_policy_audit:
  assumes "same_policy v v'"
  shows "unknown_symbols (audit v') = unknown_symbols (audit v)
       \<and> set (missing_symbols (audit v')) = set (missing_symbols (audit v))
       \<and> snd (report lib_path (audit v')) = snd (report lib_path (audit v))
       \<and> set (fst (report lib_path (audit v'))) = set (fst (report lib_path (audit v)))"
proof -
  from assms have u: "unknown_symbols (audit v') = unknown_symbols (audit v)"
    by (simp add: same_policy_def audit_eq)
  from assms have m: "set (missing_symbols (audit v')) = set (missing_symbols (audit v))"
    by (simp add: same_policy_def audit_eq)
  from m have e: "missing_symbols (audit v') = [] \<longleftrightarrow> missing_symbols (audit v) = []"
    by (metis set_empty)
  from u e have s: "snd (report lib_path (audit v')) = snd (report lib_path (audit v))"
    by (simp add: report_def)
  from u m have "set (fst (report lib_path (audit v'))) = set (fst (report lib_path (audit v)))"
    by (simp add: report_def)
  with u m s show ?thesis by simp
qed

lemma count_list_filter:
  "count_list (filter P xs) s = (if P s then count_list xs s else 0)"
  by (induction xs) auto

lemma count_list_append: "count_list (xs @ ys) s = count_list xs s + count_list ys s"
  by (induction xs) auto

subsection \<open>The unknown symbols\<close>

text \<open>
  Claim C1. The unknown symbols of the audit are the exported symbols, in their order and
  as often as they are exported, without those that are mandatory, optional or in
  \<open>PLATFORM_SYMBOLS\<close>: a symbol is unknown exactly when it is exported and in none of
  the three lists.
\<close>

theorem audit_unknown:
  "unknown_symbols (audit v) =
     filter (\<lambda>s. s \<notin> set (mandatory_symbols v) \<and> s \<notin> set (optional_symbols v)
                  \<and> s \<notin> set PLATFORM_SYMBOLS) (lib_symbols v)
   \<and> (\<forall>s. s \<in> set (unknown_symbols (audit v)) \<longleftrightarrow>
          s \<in> set (lib_symbols v) \<and> s \<notin> set (mandatory_symbols v)
          \<and> s \<notin> set (optional_symbols v) \<and> s \<notin> set PLATFORM_SYMBOLS)"
  by (auto simp: audit_eq)

theorem audit_unknown_witness:
  "unknown_symbols (audit (sample_vars
      [''foo_extra'', ''foo_init'', ''_end'', ''foo_debug'', ''bar'', ''foo_extra'']))
   = [''foo_extra'', ''bar'', ''foo_extra'']"
  using audit_unknown [of "sample_vars
      [''foo_extra'', ''foo_init'', ''_end'', ''foo_debug'', ''bar'', ''foo_extra'']"]
  by (simp add: PLATFORM_SYMBOLS_def)

subsection \<open>The missing symbols\<close>

text \<open>
  Claim C2. The missing symbols of the audit are the mandatory symbols that are not
  exported, in the order the policy file declares them: a symbol is missing exactly when
  it is mandatory and not exported.
\<close>

theorem audit_missing:
  "missing_symbols (audit v) = filter (\<lambda>s. s \<notin> set (lib_symbols v)) (mandatory_symbols v)
   \<and> set (missing_symbols (audit v)) = set (mandatory_symbols v) - set (lib_symbols v)
   \<and> (\<forall>s. s \<in> set (missing_symbols (audit v)) \<longleftrightarrow>
          s \<in> set (mandatory_symbols v) \<and> s \<notin> set (lib_symbols v))"
  by (auto simp: audit_eq)

theorem audit_missing_witness:
  "missing_symbols (audit
     \<lparr>lib_symbols = [''b'', ''x''], mandatory_symbols = [''c'', ''b'', ''a''],
      optional_symbols = [], unknown_symbols = [], missing_symbols = []\<rparr>) = [''c'', ''a'']"
  using audit_missing [of
     "\<lparr>lib_symbols = [''b'', ''x''], mandatory_symbols = [''c'', ''b'', ''a''],
       optional_symbols = [], unknown_symbols = [], missing_symbols = []\<rparr>"]
  by simp

subsection \<open>The platform symbols\<close>

text \<open>
  Claim C10. \<open>PLATFORM_SYMBOLS\<close> is the list of the nine names below, and an exported
  symbol that is one of them is never among the unknown symbols, whatever the policy.
\<close>

theorem platform_symbols_allowed:
  "PLATFORM_SYMBOLS = [''__bss_end__'', ''__bss_start__'', ''__bss_start'', ''__end__'',
                       ''_bss_end__'', ''_edata'', ''_end'', ''_fini'', ''_init'']
   \<and> length PLATFORM_SYMBOLS = 9
   \<and> (symbol \<in> set PLATFORM_SYMBOLS \<longrightarrow> symbol \<notin> set (unknown_symbols (audit v)))"
  by (simp add: audit_eq) (simp add: PLATFORM_SYMBOLS_def)

theorem platform_symbols_allowed_witness:
  "''_edata'' \<in> set PLATFORM_SYMBOLS
   \<and> ''_edata'' \<notin> set (unknown_symbols (audit (sample_vars [''_edata'', ''foo_init''])))"
  using platform_symbols_allowed [of "''_edata''" "sample_vars [''_edata'', ''foo_init'']"]
  by (simp add: PLATFORM_SYMBOLS_def)

subsection \<open>The report\<close>

text \<open>
  Claim C3. A run that reaches the audit (the tool's output is read, the policy file is
  read and every line of it is accepted) prints one line
  \<^verbatim>\<open><lib>: unknown symbol exported: <symbol>\<close> for each unknown symbol, then one line
  \<^verbatim>\<open><lib>: missing symbol: <symbol>\<close> for each missing symbol, each list in the order of
  the audit, and exits with status 0 when both lists are empty and with status 1 otherwise.
\<close>

theorem main_report:
  assumes "get_symbols w (nm a) (lib a) = Inr syms"
    and "readlines w (symbols_file a) = Inr lines"
    and "policy_loop (symbols_file a) lines (init_vars syms) = Inr v"
  shows "main w a =
     (map (\<lambda>s. lib a @ '': unknown symbol exported: '' @ s) (unknown_symbols (audit v))
      @ map (\<lambda>s. lib a @ '': missing symbol: '' @ s) (missing_symbols (audit v)),
      SysExit (if unknown_symbols (audit v) = [] \<and> missing_symbols (audit v) = [] then 0 else 1))"
  using assms by (simp add: main_def report_def)

theorem main_report_witness:
  "main (sample_world (''0a T foo_debug'' @ [CHR 0x0A] @ ''0b T bar'' @ [CHR 0x0A])
                      [''foo_init'' @ [CHR 0x0A], ''(optional) foo_debug'' @ [CHR 0x0A]])
        sample_args
   = ([''libfoo.so: unknown symbol exported: bar'', ''libfoo.so: missing symbol: foo_init''],
      SysExit 1)"
proof -
  let ?w = "sample_world (''0a T foo_debug'' @ [CHR 0x0A] @ ''0b T bar'' @ [CHR 0x0A])
                         [''foo_init'' @ [CHR 0x0A], ''(optional) foo_debug'' @ [CHR 0x0A]]"
  have 1: "get_symbols ?w (nm sample_args) (lib sample_args) = Inr [''foo_debug'', ''bar'']"
    by (simp add: model_defs)
  have 2: "readlines ?w (symbols_file sample_args)
           = Inr [''foo_init'' @ [CHR 0x0A], ''(optional) foo_debug'' @ [CHR 0x0A]]"
    by simp
  have 3: "policy_loop (symbols_file sample_args)
             [''foo_init'' @ [CHR 0x0A], ''(optional) foo_debug'' @ [CHR 0x0A]]
             (init_vars [''foo_debug'', ''bar'']) = Inr (sample_vars [''foo_debug'', ''bar''])"
    by (simp add: model_defs)
  show ?thesis
    using main_report [OF 1 2 3] by (simp add: audit_eq PLATFORM_SYMBOLS_def)
qed

subsection \<open>The fields of the tool's output\<close>

text \<open>
  Claim C5. When the tool's output is read and decoded, \<open>get_symbols\<close> returns the third
  field of every line if every line has exactly three fields; if some line has another
  number of fields it raises \<open>ValueError\<close>, and \<open>main\<close> ends with that exception, having
  printed nothing, with a status other than 0.
\<close>

theorem get_symbols_three_fields:
  assumes "check_output w [nm a, ''--format=bsd'', ''-D'', ''--defined-only'', lib a] = Inr bs"
    and "decode_ascii bs = Inr output"
  shows "if \<forall>line \<in> set (splitlines output). length (split_ws line) = 3
         then get_symbols w (nm a) (lib a)
              = Inr (map (\<lambda>line. split_ws line ! 2) (splitlines output))
         else get_symbols w (nm a) (lib a) = Inl ValueError
              \<and> main w a = ([], Uncaught ValueError)
              \<and> exit_code (snd (main w a)) \<noteq> 0"
  using assms by (simp add: get_symbols_def get_symbols_loop_eq main_def)

theorem get_symbols_three_fields_witness:
  "get_symbols (sample_world (''0a T foo'' @ [CHR 0x0A] @ ''0b D bar'' @ [CHR 0x0A]) [])
     (nm sample_args) (lib sample_args) = Inr [''foo'', ''bar'']
   \<and> main (sample_world (''0a T foo'' @ [CHR 0x0A] @ ''0b bar'' @ [CHR 0x0A]) []) sample_args
     = ([], Uncaught ValueError)"
proof -
  have d1: "decode_ascii (''0a T foo'' @ [CHR 0x0A] @ ''0b D bar'' @ [CHR 0x0A])
            = Inr (''0a T foo'' @ [CHR 0x0A] @ ''0b D bar'' @ [CHR 0x0A])"
    by (simp add: decode_ascii_def)
  have d2: "decode_ascii (''0a T foo'' @ [CHR 0x0A] @ ''0b bar'' @ [CHR 0x0A])
            = Inr (''0a T foo'' @ [CHR 0x0A] @ ''0b bar'' @ [CHR 0x0A])"
    by (simp add: decode_ascii_def)
  have "get_symbols (sample_world (''0a T foo'' @ [CHR 0x0A] @ ''0b D bar'' @ [CHR 0x0A]) [])
          (nm sample_args) (lib sample_args) = Inr [''foo'', ''bar'']"
    using get_symbols_three_fields [OF _ d1,
        of "sample_world (''0a T foo'' @ [CHR 0x0A] @ ''0b D bar'' @ [CHR 0x0A]) []" sample_args]
    by (simp add: splitlines_def linebreaks_def split_ws_def isspace_def whitespace_def)
  moreover
  have "main (sample_world (''0a T foo'' @ [CHR 0x0A] @ ''0b bar'' @ [CHR 0x0A]) []) sample_args
        = ([], Uncaught ValueError)"
    using get_symbols_three_fields [OF _ d2,
        of "sample_world (''0a T foo'' @ [CHR 0x0A] @ ''0b bar'' @ [CHR 0x0A]) []" sample_args]
    by (simp add: splitlines_def linebreaks_def split_ws_def isspace_def whitespace_def)
  ultimately show ?thesis by simp
qed

subsection \<open>The lines of the policy file\<close>

text \<open>
  Claim C4, as the code has it. A policy line is cut at its first \<^verbatim>\<open>#\<close> and stripped;
  an empty rest is skipped, and a rest that is not empty has at least one field. The
  line is rejected exactly when it has three or more fields, with the message
  \<^verbatim>\<open><path>: invalid format: <stripped line>\<close>, or two fields of which the first is
  not \<^verbatim>\<open>(optional)\<close>, with the message \<^verbatim>\<open><path>: invalid qualifier: <first field>\<close>,
  which names the file and the qualifier and leaves out the rest of the line. Otherwise a
  line of two fields appends its second field to the optional symbols and a line of one
  field appends it to the mandatory symbols. When the tool's output is read and the
  lines before are accepted, a rejected line makes the process print its message alone
  and exit with status 1.
\<close>

theorem policy_line_format:
  "(let line = strip (split_hash_0 line0); fields = split_ws line in
     (line = [] \<longrightarrow> policy_line path line0 v = Inr v)
   \<and> (line \<noteq> [] \<longrightarrow> fields \<noteq> []
       \<and> policy_line path line0 v =
           (if 3 \<le> length fields then Inl (path @ '': invalid format: '' @ line, 1)
            else if length fields = 2 \<and> fields ! 0 \<noteq> ''(optional)''
              then Inl (path @ '': invalid qualifier: '' @ fields ! 0, 1)
            else if length fields = 2
              then Inr (v\<lparr>optional_symbols := optional_symbols v @ [fields ! 1]\<rparr>)
            else Inr (v\<lparr>mandatory_symbols := mandatory_symbols v @ [fields ! 0]\<rparr>)))
   \<and> ((\<exists>e. policy_line path line0 v = Inl e) \<longleftrightarrow>
        3 \<le> length fields \<or> (length fields = 2 \<and> fields ! 0 \<noteq> ''(optional)'')))
   \<and> (get_symbols w (nm a) (lib a) = Inr syms
        \<and> readlines w (symbols_file a) = Inr (pre @ line0 # rest)
        \<and> policy_loop (symbols_file a) pre (init_vars syms) = Inr v
        \<and> policy_line (symbols_file a) line0 v = Inl (msg, code)
      \<longrightarrow> main w a = ([msg], SysExit 1))"
proof -
  let ?line = "strip (split_hash_0 line0)"
  let ?fields = "split_ws ?line"
  have ne: "?line \<noteq> [] \<Longrightarrow> ?fields \<noteq> []" by (rule split_ws_strip_nonempty)
  have emp: "?line = [] \<Longrightarrow> ?fields = []" by (simp add: split_ws_def)
  have len: "?line \<noteq> [] \<Longrightarrow> length ?fields \<noteq> 0" using ne by simp
  have A: "?line = [] \<longrightarrow> policy_line path line0 v = Inr v"
    by (simp add: policy_line_eq)
  have B: "?line \<noteq> [] \<longrightarrow> ?fields \<noteq> []
       \<and> policy_line path line0 v =
           (if 3 \<le> length ?fields then Inl (path @ '': invalid format: '' @ ?line, 1)
            else if length ?fields = 2 \<and> ?fields ! 0 \<noteq> ''(optional)''
              then Inl (path @ '': invalid qualifier: '' @ ?fields ! 0, 1)
            else if length ?fields = 2
              then Inr (v\<lparr>optional_symbols := optional_symbols v @ [?fields ! 1]\<rparr>)
            else Inr (v\<lparr>mandatory_symbols := mandatory_symbols v @ [?fields ! 0]\<rparr>))"
  proof
    assume l: "?line \<noteq> []"
    then have "length ?fields = 1 \<or> length ?fields = 2 \<or> 3 \<le> length ?fields"
      using len by arith
    then show "?fields \<noteq> []
       \<and> policy_line path line0 v =
           (if 3 \<le> length ?fields then Inl (path @ '': invalid format: '' @ ?line, 1)
            else if length ?fields = 2 \<and> ?fields ! 0 \<noteq> ''(optional)''
              then Inl (path @ '': invalid qualifier: '' @ ?fields ! 0, 1)
            else if length ?fields = 2
              then Inr (v\<lparr>optional_symbols := optional_symbols v @ [?fields ! 1]\<rparr>)
            else Inr (v\<lparr>mandatory_symbols := mandatory_symbols v @ [?fields ! 0]\<rparr>))"
      using l ne by (auto simp: policy_line_eq Let_def)
  qed
  have C: "(\<exists>e. policy_line path line0 v = Inl e) \<longleftrightarrow>
        3 \<le> length ?fields \<or> (length ?fields = 2 \<and> ?fields ! 0 \<noteq> ''(optional)'')"
  proof (cases "?line = []")
    case True
    then show ?thesis using emp by (simp add: policy_line_eq)
  next
    case False
    then have "length ?fields = 1 \<or> length ?fields = 2 \<or> 3 \<le> length ?fields"
      using len by arith
    then show ?thesis using False by (auto simp: policy_line_eq Let_def)
  qed
  have D: "get_symbols w (nm a) (lib a) = Inr syms
        \<and> readlines w (symbols_file a) = Inr (pre @ line0 # rest)
        \<and> policy_loop (symbols_file a) pre (init_vars syms) = Inr v
        \<and> policy_line (symbols_file a) line0 v = Inl (msg, code)
      \<longrightarrow> main w a = ([msg], SysExit 1)"
    using policy_line_code [of "symbols_file a" line0 v msg code]
    by (auto simp: main_def policy_loop_append)
  from A B C D show ?thesis by (simp add: Let_def)
qed

theorem policy_line_format_witness:
  "policy_line ''policy.txt'' (''(optional) (optional) c'' @ [CHR 0x0A]) (init_vars [])
     = Inl (''policy.txt: invalid format: (optional) (optional) c'', 1)
   \<and> policy_line ''policy.txt'' (''(maybe) d'' @ [CHR 0x0A]) (init_vars [])
     = Inl (''policy.txt: invalid qualifier: (maybe)'', 1)
   \<and> policy_line ''policy.txt'' (''(optional) b # c'' @ [CHR 0x0A]) (init_vars [])
     = Inr ((init_vars [])\<lparr>optional_symbols := [''b'']\<rparr>)
   \<and> policy_line ''policy.txt'' (''a'' @ [CHR 0x0A]) (init_vars [])
     = Inr ((init_vars [])\<lparr>mandatory_symbols := [''a'']\<rparr>)
   \<and> policy_line ''policy.txt'' ('' # c'' @ [CHR 0x0A]) (init_vars []) = Inr (init_vars [])
   \<and> main (sample_world [] [''a'' @ [CHR 0x0A], ''(maybe) d'' @ [CHR 0x0A]]) sample_args
     = ([''policy.txt: invalid qualifier: (maybe)''], SysExit 1)"
proof -
  note ev = split_ws_def strip_def split_hash_0_def isspace_def whitespace_def Let_def
    init_vars_def
  have a: "policy_line ''policy.txt'' (''(optional) (optional) c'' @ [CHR 0x0A]) (init_vars [])
     = Inl (''policy.txt: invalid format: (optional) (optional) c'', 1)"
    using policy_line_format [of "''(optional) (optional) c'' @ [CHR 0x0A]" "''policy.txt''"
        "init_vars []"]
    by (simp add: ev)
  have b: "policy_line ''policy.txt'' (''(maybe) d'' @ [CHR 0x0A]) (init_vars [])
     = Inl (''policy.txt: invalid qualifier: (maybe)'', 1)"
    using policy_line_format [of "''(maybe) d'' @ [CHR 0x0A]" "''policy.txt''" "init_vars []"]
    by (simp add: ev)
  have c: "policy_line ''policy.txt'' (''(optional) b # c'' @ [CHR 0x0A]) (init_vars [])
     = Inr ((init_vars [])\<lparr>optional_symbols := [''b'']\<rparr>)"
    using policy_line_format [of "''(optional) b # c'' @ [CHR 0x0A]" "''policy.txt''"
        "init_vars []"]
    by (simp add: ev)
  have d: "policy_line ''policy.txt'' (''a'' @ [CHR 0x0A]) (init_vars [])
     = Inr ((init_vars [])\<lparr>mandatory_symbols := [''a'']\<rparr>)"
    using policy_line_format [of "''a'' @ [CHR 0x0A]" "''policy.txt''" "init_vars []"]
    by (simp add: ev)
  have e: "policy_line ''policy.txt'' ('' # c'' @ [CHR 0x0A]) (init_vars []) = Inr (init_vars [])"
    using policy_line_format [of "'' # c'' @ [CHR 0x0A]" "''policy.txt''" "init_vars []"]
    by (simp add: ev)
  have f: "main (sample_world [] [''a'' @ [CHR 0x0A], ''(maybe) d'' @ [CHR 0x0A]]) sample_args
     = ([''policy.txt: invalid qualifier: (maybe)''], SysExit 1)"
  proof -
    let ?w = "sample_world [] [''a'' @ [CHR 0x0A], ''(maybe) d'' @ [CHR 0x0A]]"
    let ?v = "(init_vars [])\<lparr>mandatory_symbols := [''a'']\<rparr>"
    have "get_symbols ?w (nm sample_args) (lib sample_args) = Inr []
        \<and> readlines ?w (symbols_file sample_args)
            = Inr ([''a'' @ [CHR 0x0A]] @ (''(maybe) d'' @ [CHR 0x0A]) # [])
        \<and> policy_loop (symbols_file sample_args) [''a'' @ [CHR 0x0A]] (init_vars []) = Inr ?v
        \<and> policy_line (symbols_file sample_args) (''(maybe) d'' @ [CHR 0x0A]) ?v
            = Inl (''policy.txt: invalid qualifier: (maybe)'', 1)"
      by (simp add: model_defs)
    with policy_line_format [of "''(maybe) d'' @ [CHR 0x0A]" "''policy.txt''" ?v ?w sample_args
        "[]" "[''a'' @ [CHR 0x0A]]" "[]" "''policy.txt: invalid qualifier: (maybe)''" 1]
    show ?thesis by (simp add: Let_def)
  qed
  from a b c d e f show ?thesis by simp
qed

text \<open>
  The message of a rejected qualifier does not tell the line: the policy lines
  \<^verbatim>\<open>(maybe) d\<close> and \<^verbatim>\<open>(maybe) e\<close> give the same output, in which the line does not
  occur.
\<close>

theorem invalid_qualifier_message_omits_line:
  "main (sample_world [] [''(maybe) d'' @ [CHR 0x0A]]) sample_args
     = ([''policy.txt: invalid qualifier: (maybe)''], SysExit 1)
   \<and> main (sample_world [] [''(maybe) e'' @ [CHR 0x0A]]) sample_args
     = ([''policy.txt: invalid qualifier: (maybe)''], SysExit 1)
   \<and> \<not> sublist ''(maybe) d'' ''policy.txt: invalid qualifier: (maybe)''"
  by (simp add: model_defs sublist_Cons_right)

text \<open>
  Claim C9. A policy line whose only field is \<^verbatim>\<open>(optional)\<close> is accepted, and declares
  a mandatory symbol of that name.
\<close>

theorem lone_qualifier_is_mandatory:
  assumes "split_ws (strip (split_hash_0 line0)) = [''(optional)'']"
  shows "policy_line path line0 v
         = Inr (v\<lparr>mandatory_symbols := mandatory_symbols v @ [''(optional)'']\<rparr>)"
proof -
  from assms have "strip (split_hash_0 line0) \<noteq> []"
    by (auto simp: split_ws_def)
  with assms show ?thesis by (simp add: policy_line_eq)
qed

theorem lone_qualifier_is_mandatory_witness:
  "split_ws (strip (split_hash_0 (''  (optional)  # note'' @ [CHR 0x0A]))) = [''(optional)'']
   \<and> policy_line ''policy.txt'' (''  (optional)  # note'' @ [CHR 0x0A]) (init_vars [])
      = Inr ((init_vars [])\<lparr>mandatory_symbols := [''(optional)'']\<rparr>)"
proof -
  have 1: "split_ws (strip (split_hash_0 (''  (optional)  # note'' @ [CHR 0x0A])))
           = [''(optional)'']"
    by (simp add: split_ws_def strip_def split_hash_0_def isspace_def whitespace_def)
  from lone_qualifier_is_mandatory [OF 1, of "''policy.txt''" "init_vars []"] 1
  show ?thesis by (simp add: init_vars_def)
qed

subsection \<open>Repeated policy entries\<close>

text \<open>
  Claim C6, as the code has it. The policy is kept in lists. In a policy file of which
  every line is accepted, one more line \<open>l\<close> that declares what a line \<open>l0\<close> of the file
  declares, put anywhere, leaves the file accepted and changes neither the unknown
  symbols, nor the set of missing symbols, nor the set of printed lines, nor the exit
  status; but every missing mandatory symbol it declares occurs once more among the
  missing symbols, so the symbol is reported once for each line that declares it.
\<close>

theorem repeated_policy_entry:
  assumes "\<forall>x \<in> set (xs @ ys). line_entry x \<noteq> None"
    and "l0 \<in> set (xs @ ys)"
    and "line_entry l = line_entry l0"
  shows "(\<exists>v1 v2. policy_loop path (xs @ ys) v = Inr v1
            \<and> policy_loop path (xs @ l # ys) v = Inr v2
            \<and> unknown_symbols (audit v2) = unknown_symbols (audit v1)
            \<and> set (missing_symbols (audit v2)) = set (missing_symbols (audit v1))
            \<and> (\<forall>s. count_list (missing_symbols (audit v2)) s =
                    count_list (missing_symbols (audit v1)) s
                    + (if s \<in> set (lib_symbols v) then 0 else count_list (line_mandatory l) s)))
       \<and> (check_output w' = check_output w
          \<and> readlines w (symbols_file a) = Inr (xs @ ys)
          \<and> readlines w' (symbols_file a) = Inr (xs @ l # ys)
          \<longrightarrow> snd (main w' a) = snd (main w a)
              \<and> set (fst (main w' a)) = set (fst (main w a)))"
proof -
  from assms have ok: "\<forall>x \<in> set (xs @ l # ys). line_entry x \<noteq> None" by auto
  from assms(2,3) have
    m: "set (line_mandatory l) \<subseteq> set (concat (map line_mandatory (xs @ ys)))" and
    o: "set (line_optional l) \<subseteq> set (concat (map line_optional (xs @ ys)))"
    by (auto simp: line_mandatory_def line_optional_def)
  define f :: "vars \<Rightarrow> vars" where "f u =
      u\<lparr>mandatory_symbols := mandatory_symbols u @ concat (map line_mandatory (xs @ ys)),
        optional_symbols := optional_symbols u @ concat (map line_optional (xs @ ys))\<rparr>" for u
  define g :: "vars \<Rightarrow> vars" where "g u =
      u\<lparr>mandatory_symbols := mandatory_symbols u @ concat (map line_mandatory (xs @ l # ys)),
        optional_symbols := optional_symbols u @ concat (map line_optional (xs @ l # ys))\<rparr>" for u
  have f: "policy_loop p (xs @ ys) u = Inr (f u)" for p u
    unfolding f_def by (rule policy_loop_accepted [OF assms(1)])
  have g: "policy_loop p (xs @ l # ys) u = Inr (g u)" for p u
    unfolding g_def by (rule policy_loop_accepted [OF ok])
  have sp: "same_policy (f u) (g u)" for u
    using m o by (auto simp: same_policy_def f_def g_def)
  have cnt: "count_list (missing_symbols (audit (g v))) s =
               count_list (missing_symbols (audit (f v))) s
               + (if s \<in> set (lib_symbols v) then 0 else count_list (line_mandatory l) s)" for s
    by (simp add: audit_eq count_list_filter count_list_append f_def g_def)
  have A: "\<exists>v1 v2. policy_loop path (xs @ ys) v = Inr v1
            \<and> policy_loop path (xs @ l # ys) v = Inr v2
            \<and> unknown_symbols (audit v2) = unknown_symbols (audit v1)
            \<and> set (missing_symbols (audit v2)) = set (missing_symbols (audit v1))
            \<and> (\<forall>s. count_list (missing_symbols (audit v2)) s =
                    count_list (missing_symbols (audit v1)) s
                    + (if s \<in> set (lib_symbols v) then 0 else count_list (line_mandatory l) s))"
    using f [of path v] g [of path v] same_policy_audit [OF sp [of v], of "[]"] cnt by blast
  have B: "snd (main w' a) = snd (main w a) \<and> set (fst (main w' a)) = set (fst (main w a))"
    if c: "check_output w' = check_output w"
      and r: "readlines w (symbols_file a) = Inr (xs @ ys)"
      and r': "readlines w' (symbols_file a) = Inr (xs @ l # ys)"
  proof -
    from c have gs: "get_symbols w' (nm a) (lib a) = get_symbols w (nm a) (lib a)"
      by (simp add: get_symbols_def)
    show ?thesis
    proof (cases "get_symbols w (nm a) (lib a)")
      case (Inl e)
      with gs show ?thesis by (simp add: main_def)
    next
      case (Inr syms)
      with gs r r' same_policy_audit [OF sp [of "init_vars syms"], of "lib a"]
      show ?thesis by (simp add: main_def f g)
    qed
  qed
  from A B show ?thesis by blast
qed

theorem repeated_policy_entry_witness:
  "''foo'' @ [CHR 0x0A]
       \<in> set ([''(optional) bar'' @ [CHR 0x0A]] @ [''foo'' @ [CHR 0x0A], ''qux'' @ [CHR 0x0A]])
   \<and> line_entry (''foo  # again'' @ [CHR 0x0A]) = line_entry (''foo'' @ [CHR 0x0A])
   \<and> snd (main (sample_world (''0a T baz'' @ [CHR 0x0A])
        [''(optional) bar'' @ [CHR 0x0A], ''foo  # again'' @ [CHR 0x0A], ''foo'' @ [CHR 0x0A],
         ''qux'' @ [CHR 0x0A]]) sample_args)
     = snd (main (sample_world (''0a T baz'' @ [CHR 0x0A])
        [''(optional) bar'' @ [CHR 0x0A], ''foo'' @ [CHR 0x0A], ''qux'' @ [CHR 0x0A]]) sample_args)
   \<and> set (fst (main (sample_world (''0a T baz'' @ [CHR 0x0A])
        [''(optional) bar'' @ [CHR 0x0A], ''foo  # again'' @ [CHR 0x0A], ''foo'' @ [CHR 0x0A],
         ''qux'' @ [CHR 0x0A]]) sample_args))
     = set (fst (main (sample_world (''0a T baz'' @ [CHR 0x0A])
        [''(optional) bar'' @ [CHR 0x0A], ''foo'' @ [CHR 0x0A], ''qux'' @ [CHR 0x0A]]) sample_args))"
proof -
  let ?xs = "[''(optional) bar'' @ [CHR 0x0A]]"
  let ?ys = "[''foo'' @ [CHR 0x0A], ''qux'' @ [CHR 0x0A]]"
  let ?l = "''foo  # again'' @ [CHR 0x0A]"
  let ?w = "sample_world (''0a T baz'' @ [CHR 0x0A]) (?xs @ ?ys)"
  let ?w' = "sample_world (''0a T baz'' @ [CHR 0x0A]) (?xs @ ?l # ?ys)"
  have 1: "\<forall>x \<in> set (?xs @ ?ys). line_entry x \<noteq> None"
    by (simp add: line_entry_def model_defs)
  have 2: "''foo'' @ [CHR 0x0A] \<in> set (?xs @ ?ys)" by simp
  have 3: "line_entry ?l = line_entry (''foo'' @ [CHR 0x0A])"
    by (simp add: line_entry_def model_defs)
  have 4: "check_output ?w' = check_output ?w
          \<and> readlines ?w (symbols_file sample_args) = Inr (?xs @ ?ys)
          \<and> readlines ?w' (symbols_file sample_args) = Inr (?xs @ ?l # ?ys)"
    by simp
  from repeated_policy_entry [OF 1 2 3, of _ _ ?w' ?w sample_args, THEN conjunct2] 4
  have "snd (main ?w' sample_args) = snd (main ?w sample_args)
        \<and> set (fst (main ?w' sample_args)) = set (fst (main ?w sample_args))"
    by blast
  with 2 3 show ?thesis by simp
qed

text \<open>
  With no exported symbol, the policy \<^verbatim>\<open>foo\<close> prints one line and the policy
  \<^verbatim>\<open>foo\<close>, \<^verbatim>\<open>foo\<close> prints it twice.
\<close>

theorem repeated_line_reported_twice:
  "main (sample_world [] [''foo'' @ [CHR 0x0A]]) sample_args
     = ([''libfoo.so: missing symbol: foo''], SysExit 1)
   \<and> main (sample_world [] [''foo'' @ [CHR 0x0A], ''foo'' @ [CHR 0x0A]]) sample_args
     = ([''libfoo.so: missing symbol: foo'', ''libfoo.so: missing symbol: foo''], SysExit 1)"
  by (simp add: model_defs)

subsection \<open>The order of the two inputs\<close>

text \<open>
  Claim C7, as the code has it. \<open>main\<close> calls \<open>get_symbols\<close> before it opens the policy
  file: when \<open>get_symbols\<close> raises, the run ends with that exception and prints nothing,
  whatever the policy file holds; the message of a rejected policy line is printed, with
  exit status 1, when \<open>get_symbols\<close> has returned.
\<close>

theorem get_symbols_before_policy:
  "(get_symbols w (nm a) (lib a) = Inl e \<longrightarrow> main w a = ([], Uncaught e))
   \<and> (get_symbols w (nm a) (lib a) = Inr syms
        \<and> readlines w (symbols_file a) = Inr lines
        \<and> policy_loop (symbols_file a) lines (init_vars syms) = Inl (msg, code)
      \<longrightarrow> main w a = ([msg], SysExit 1))"
  by (auto simp: main_def dest: policy_loop_code)

theorem get_symbols_before_policy_witness:
  "main \<lparr>check_output = (\<lambda>argv. Inl OSError), readlines = (\<lambda>path. Inr [''(maybe) d''])\<rparr>
        sample_args = ([], Uncaught OSError)
   \<and> main (sample_world [] [''(maybe) d'']) sample_args
     = ([''policy.txt: invalid qualifier: (maybe)''], SysExit 1)"
proof -
  let ?w1 = "\<lparr>check_output = (\<lambda>argv. Inl OSError),
              readlines = (\<lambda>path. Inr [''(maybe) d''])\<rparr>"
  let ?w2 = "sample_world [] [''(maybe) d'']"
  have 1: "get_symbols ?w1 (nm sample_args) (lib sample_args) = Inl OSError"
    by (simp add: get_symbols_def)
  have 2: "get_symbols ?w2 (nm sample_args) (lib sample_args) = Inr []
           \<and> readlines ?w2 (symbols_file sample_args) = Inr [''(maybe) d'']
           \<and> policy_loop (symbols_file sample_args) [''(maybe) d''] (init_vars [])
               = Inl (''policy.txt: invalid qualifier: (maybe)'', 1)"
    by (simp add: model_defs)
  from get_symbols_before_policy [of ?w1 sample_args OSError, THEN conjunct1] 1
  have "main ?w1 sample_args = ([], Uncaught OSError)" by blast
  moreover
  from get_symbols_before_policy [of ?w2 sample_args _ "[]" "[''(maybe) d'']"
      "''policy.txt: invalid qualifier: (maybe)''" 1, THEN conjunct2] 2
  have "main ?w2 sample_args = ([''policy.txt: invalid qualifier: (maybe)''], SysExit 1)"
    by blast
  ultimately show ?thesis by simp
qed

text \<open>
  With the malformed policy line \<^verbatim>\<open>a b c\<close>, a tool that exits with an error ends the
  run before the policy file is opened; the message of the line is printed only when the
  tool succeeds.
\<close>

theorem tool_failure_hides_format_error:
  "main \<lparr>check_output = (\<lambda>argv. Inl CalledProcessError),
         readlines = (\<lambda>path. Inr [''a b c''])\<rparr> sample_args
     = ([], Uncaught CalledProcessError)
   \<and> main (sample_world [] [''a b c'']) sample_args
     = ([''policy.txt: invalid format: a b c''], SysExit 1)"
  by (simp add: model_defs)

subsection \<open>Determinism\<close>

text \<open>
  Claim C8. The outcome of \<open>main\<close> depends on the world only through the output of the
  tool for this library and the lines of this policy file: two runs that get the same
  two answers print the same lines and end the same way. The audit changes neither the
  exported symbols nor the two lists of the policy, does not depend on what the two lists
  of the report held before, and run again on its own result gives the same result.
\<close>

theorem main_deterministic:
  "(check_output w [nm a, ''--format=bsd'', ''-D'', ''--defined-only'', lib a]
      = check_output w' [nm a, ''--format=bsd'', ''-D'', ''--defined-only'', lib a]
    \<and> readlines w (symbols_file a) = readlines w' (symbols_file a)
    \<longrightarrow> main w a = main w' a)
   \<and> lib_symbols (audit v) = lib_symbols v
   \<and> mandatory_symbols (audit v) = mandatory_symbols v
   \<and> optional_symbols (audit v) = optional_symbols v
   \<and> audit (v\<lparr>unknown_symbols := u, missing_symbols := m\<rparr>) = audit v
   \<and> audit (audit v) = audit v"
proof -
  have "main w a = main w' a"
    if "check_output w [nm a, ''--format=bsd'', ''-D'', ''--defined-only'', lib a]
          = check_output w' [nm a, ''--format=bsd'', ''-D'', ''--defined-only'', lib a]"
      and "readlines w (symbols_file a) = readlines w' (symbols_file a)"
    using that by (simp add: main_def get_symbols_def cong: sum.case_cong)
  then show ?thesis by (simp add: audit_eq)
qed

theorem main_deterministic_witness:
  "main \<lparr>check_output =
           (\<lambda>argv. if argv = [''nm'', ''--format=bsd'', ''-D'', ''--defined-only'', ''libfoo.so'']
                    then Inr (''0a T foo'' @ [CHR 0x0A]) else Inl OSError),
         readlines = (\<lambda>path. if path = ''policy.txt'' then Inr [''bar''] else Inl OSError)\<rparr>
        sample_args
   = main (sample_world (''0a T foo'' @ [CHR 0x0A]) [''bar'']) sample_args"
  using main_deterministic [of
     "\<lparr>check_output =
           (\<lambda>argv. if argv = [''nm'', ''--format=bsd'', ''-D'', ''--defined-only'', ''libfoo.so'']
                    then Inr (''0a T foo'' @ [CHR 0x0A]) else Inl OSError),
         readlines = (\<lambda>path. if path = ''policy.txt'' then Inr [''bar''] else Inl OSError)\<rparr>"
     sample_args "sample_world (''0a T foo'' @ [CHR 0x0A]) [''bar'']"]
  by simp

end
